theory Spec2Isabelle
  imports Main "HOL-Library.Sublist"
begin

section \<open>Go values that types.go computes with\<close>

text \<open>
  A Go slice is either nil or holds a sequence of elements; \<open>None\<close> is the nil slice.
  A \<^verbatim>\<open>for _, x := range s\<close> loop visits \<open>range_of s\<close> from left to right, and
  \<^verbatim>\<open>append(s, x)\<close> always yields a slice that is not nil.
\<close>

type_synonym 'a slice = "'a list option"

definition range_of :: "'a slice \<Rightarrow> 'a list" where
  "range_of s = (case s of None \<Rightarrow> [] | Some xs \<Rightarrow> xs)"

definition go_append :: "'a slice \<Rightarrow> 'a \<Rightarrow> 'a slice" where
  "go_append s x = Some (range_of s @ [x])"

text \<open>
  The byte slice handed to an \<^verbatim>\<open>UnmarshalJSON\<close> method is represented by the JSON value
  it spells. An object keeps its members in document order, duplicates included, since
  \<^verbatim>\<open>encoding/json\<close> processes them one after the other. Strings are byte sequences
  (UTF-8), numbers keep their literal.
\<close>

datatype json =
    JNull
  | JBool bool
  | JNumber string
  | JString string
  | JArray "json list"
  | JObject "(string \<times> json) list"

text \<open>
  The two kinds of error a decoder of this file returns: \<open>MalformedJSON\<close> stands for an
  error produced by \<^verbatim>\<open>encoding/json\<close> itself (a JSON value of the wrong type for its
  destination), \<open>InvalidArchiveFormat\<close> carries the message built by
  \<^verbatim>\<open>ArchiveFormat.UnmarshalJSON\<close>.
\<close>

datatype error = MalformedJSON | InvalidArchiveFormat string

text \<open>
  \<^verbatim>\<open>json.Unmarshal(b, &s)\<close> for a string variable holding \<open>cur\<close>: a JSON string is
  stored, \<^verbatim>\<open>null\<close> leaves the variable alone, every other value is a type error.
\<close>

fun unmarshal_string :: "json \<Rightarrow> string \<Rightarrow> error + string" where
  "unmarshal_string (JString t) cur = Inr t"
| "unmarshal_string JNull cur = Inr cur"
| "unmarshal_string (JBool b) cur = Inl MalformedJSON"
| "unmarshal_string (JNumber n) cur = Inl MalformedJSON"
| "unmarshal_string (JArray vs) cur = Inl MalformedJSON"
| "unmarshal_string (JObject ms) cur = Inl MalformedJSON"

text \<open>
  While it decodes an object into a struct, \<^verbatim>\<open>encoding/json\<close> keeps the first type
  error, goes on with the remaining members, and reports the kept error at the end.
\<close>

definition save_error :: "error option \<Rightarrow> error \<Rightarrow> error option" where
  "save_error saved e = (case saved of None \<Rightarrow> Some e | Some e0 \<Rightarrow> Some e0)"

definition decode_string_field :: "json \<Rightarrow> string \<Rightarrow> error option \<Rightarrow> string \<times> error option" where
  "decode_string_field v cur saved =
     (case unmarshal_string v cur of
        Inl e \<Rightarrow> (cur, save_error saved e)
      | Inr s \<Rightarrow> (s, saved))"

text \<open>
  An object key selects the struct field whose JSON name it equals up to case folding.
  For the lower-case ASCII names of this file, folding maps \<open>A\<close>..\<open>Z\<close> to
  \<open>a\<close>..\<open>z\<close>, the Kelvin sign (bytes E2 84 AA) to \<open>k\<close> and the long s
  (bytes C5 BF) to \<open>s\<close>.
\<close>

definition lower_ascii :: "char \<Rightarrow> char" where
  "lower_ascii c =
     (case map_of (zip ''ABCDEFGHIJKLMNOPQRSTUVWXYZ'' ''abcdefghijklmnopqrstuvwxyz'') c of
        None \<Rightarrow> c
      | Some d \<Rightarrow> d)"

fun foldName :: "string \<Rightarrow> string" where
  "foldName [] = []"
| "foldName (c # cs) =
     (if take 3 (c # cs) = [CHR 0xE2, CHR 0x84, CHR 0xAA] then CHR ''k'' # foldName (drop 2 cs)
      else if take 2 (c # cs) = [CHR 0xC5, CHR 0xBF] then CHR ''s'' # foldName (drop 1 cs)
      else lower_ascii c # foldName cs)"

section \<open>ArchiveFormat\<close>

type_synonym ArchiveFormat = string

definition ArchiveFormatUnknown :: ArchiveFormat where
  "ArchiveFormatUnknown = ''''"

definition ArchiveFormatTgz :: ArchiveFormat where
  "ArchiveFormatTgz = ''tgz''"

definition ArchiveFormatSquashfs :: ArchiveFormat where
  "ArchiveFormatSquashfs = ''squashfs''"

text \<open>
  The verb \<^verbatim>\<open>%q\<close> of \<^verbatim>\<open>fmt\<close> on a string of printable ASCII characters without
  quote or backslash, which is all it is applied to here: the string between double
  quotes.
\<close>

definition quoted :: "string \<Rightarrow> string" where
  "quoted s = CHR 0x22 # s @ [CHR 0x22]"

definition invalid_format_message :: string where
  "invalid_format_message =
     ''could not unmarshal into ArchiveFormat: must be one of ''
       @ quoted ArchiveFormatTgz @ '', '' @ quoted ArchiveFormatSquashfs"

text \<open>
  \<^verbatim>\<open>func (arf *ArchiveFormat) UnmarshalJSON(b []byte) error\<close>: the result is the error
  or the value stored through the receiver.
\<close>

definition ArchiveFormat_UnmarshalJSON :: "json \<Rightarrow> error + ArchiveFormat" where
  "ArchiveFormat_UnmarshalJSON b =
     (case unmarshal_string b [] of
        Inl err \<Rightarrow> Inl err
      | Inr s \<Rightarrow>
          if s = ArchiveFormatTgz then Inr ArchiveFormatTgz
          else if s = ArchiveFormatSquashfs then Inr ArchiveFormatSquashfs
          else Inl (InvalidArchiveFormat invalid_format_message))"

definition FileSuffix :: "ArchiveFormat \<Rightarrow> string" where
  "FileSuffix arf = ''.torcx.'' @ arf"

section \<open>Image and Archive\<close>

record Image =
  Name :: string
  Reference :: string
  Remote :: string

record Archive = Image +
  Filepath :: string
  Format :: ArchiveFormat

definition zero_Archive :: Archive where
  "zero_Archive =
     \<lparr>Image.Name = [], Image.Reference = [], Image.Remote = [],
      Filepath = [], Format = ArchiveFormatUnknown\<rparr>"

text \<open>
  \<^verbatim>\<open>json.Unmarshal(b, &arAlias)\<close>, member by member. The alias type has the fields of
  \<^verbatim>\<open>Archive\<close> and none of its methods, so the four string fields are decoded as plain
  strings and \<^verbatim>\<open>format\<close> through \<^verbatim>\<open>ArchiveFormat.UnmarshalJSON\<close>, whose error ends
  the decoding at once. A key that selects no field is skipped.

  Which error \<^verbatim>\<open>json.Unmarshal\<close> returns when a type error is already kept and the
  format member fails as well is decided inside \<^verbatim>\<open>encoding/json\<close> and differs between
  its versions; the function below returns the format member's error. The properties
  proved of Archive decoding do not depend on that choice: they speak of successful
  decodings, of documents without a format member, and of documents whose string members
  before the format member are well typed, where nothing is kept when the format member
  is reached.
\<close>

fun archive_members :: "(string \<times> json) list \<Rightarrow> Archive \<Rightarrow> error option \<Rightarrow> error + Archive" where
  "archive_members [] ar saved = (case saved of None \<Rightarrow> Inr ar | Some e \<Rightarrow> Inl e)"
| "archive_members ((key, v) # rest) ar saved =
     (if foldName key = ''name'' then
        (case decode_string_field v (Image.Name ar) saved of
           (s, saved') \<Rightarrow> archive_members rest (ar\<lparr>Image.Name := s\<rparr>) saved')
      else if foldName key = ''reference'' then
        (case decode_string_field v (Image.Reference ar) saved of
           (s, saved') \<Rightarrow> archive_members rest (ar\<lparr>Image.Reference := s\<rparr>) saved')
      else if foldName key = ''remote'' then
        (case decode_string_field v (Image.Remote ar) saved of
           (s, saved') \<Rightarrow> archive_members rest (ar\<lparr>Image.Remote := s\<rparr>) saved')
      else if foldName key = ''filepath'' then
        (case decode_string_field v (Filepath ar) saved of
           (s, saved') \<Rightarrow> archive_members rest (ar\<lparr>Filepath := s\<rparr>) saved')
      else if foldName key = ''format'' then
        (case ArchiveFormat_UnmarshalJSON v of
           Inl err \<Rightarrow> Inl err
         | Inr arf \<Rightarrow> archive_members rest (ar\<lparr>Format := arf\<rparr>) saved)
      else archive_members rest ar saved)"

fun unmarshal_archiveAlias :: "json \<Rightarrow> error + Archive" where
  "unmarshal_archiveAlias (JObject ms) = archive_members ms zero_Archive None"
| "unmarshal_archiveAlias JNull = Inr zero_Archive"
| "unmarshal_archiveAlias (JBool b) = Inl MalformedJSON"
| "unmarshal_archiveAlias (JNumber n) = Inl MalformedJSON"
| "unmarshal_archiveAlias (JString s) = Inl MalformedJSON"
| "unmarshal_archiveAlias (JArray vs) = Inl MalformedJSON"

text \<open>
  \<^verbatim>\<open>func (ar *Archive) UnmarshalJSON(b []byte) error\<close>: the result is the error or the
  Archive stored through the receiver.
\<close>

definition Archive_UnmarshalJSON :: "json \<Rightarrow> error + Archive" where
  "Archive_UnmarshalJSON b =
     (case unmarshal_archiveAlias b of
        Inl err \<Rightarrow> Inl err
      | Inr arAlias \<Rightarrow>
          Inr (if Format arAlias = ArchiveFormatUnknown
               then arAlias\<lparr>Format := ArchiveFormatTgz\<rparr>
               else arAlias))"

text \<open>
  Helpers to speak about the members of a document: the ones whose key selects the
  \<^verbatim>\<open>format\<close> field, and whether every member that selects one of the four string fields
  holds a JSON string or \<^verbatim>\<open>null\<close>.
\<close>

definition selects_format :: "string \<times> json \<Rightarrow> bool" where
  "selects_format m = (foldName (fst m) = ''format'')"

fun string_or_null :: "json \<Rightarrow> bool" where
  "string_or_null (JString t) = True"
| "string_or_null JNull = True"
| "string_or_null (JBool b) = False"
| "string_or_null (JNumber n) = False"
| "string_or_null (JArray vs) = False"
| "string_or_null (JObject ms) = False"

definition string_fields_typed :: "(string \<times> json) list \<Rightarrow> bool" where
  "string_fields_typed ms =
     list_all (\<lambda>m. foldName (fst m) \<in> {''name'', ''reference'', ''remote'', ''filepath''}
                  \<longrightarrow> string_or_null (snd m)) ms"

section \<open>Image schema converters\<close>

text \<open>
  Modelled from the spec: the wire structs \<^verbatim>\<open>ImageV0\<close>, \<^verbatim>\<open>ImageV1\<close> and
  \<^verbatim>\<open>ImagesV0\<close> are declared outside types.go; their fields are the ones the converters
  read and write.
\<close>

record ImageV0 =
  Name :: string
  Reference :: string

record ImageV1 =
  Name :: string
  Reference :: string
  Remote :: string

record ImagesV0 =
  Images :: "ImageV0 slice"

definition ToJSONV0 :: "Image \<Rightarrow> ImageV0" where
  "ToJSONV0 im = \<lparr>ImageV0.Name = Image.Name im, ImageV0.Reference = Image.Reference im\<rparr>"

definition ImageFromJSONV0 :: "ImageV0 \<Rightarrow> Image" where
  "ImageFromJSONV0 j =
     \<lparr>Image.Name = ImageV0.Name j, Image.Reference = ImageV0.Reference j, Image.Remote = []\<rparr>"

definition ToJSONV1 :: "Image \<Rightarrow> ImageV1" where
  "ToJSONV1 im =
     \<lparr>ImageV1.Name = Image.Name im, ImageV1.Reference = Image.Reference im,
      ImageV1.Remote = []\<rparr>"

definition ImageFromJSONV1 :: "ImageV1 \<Rightarrow> Image" where
  "ImageFromJSONV1 j =
     \<lparr>Image.Name = ImageV1.Name j, Image.Reference = ImageV1.Reference j,
      Image.Remote = ImageV1.Remote j\<rparr>"

text \<open>
  \<^verbatim>\<open>j := ImagesV0{}\<close> starts from the nil slice; \<^verbatim>\<open>result := []Image{}\<close> starts
  from the empty slice, which is not nil.
\<close>

definition ImagesToJSONV0 :: "Image slice \<Rightarrow> ImagesV0" where
  "ImagesToJSONV0 ims =
     fold (\<lambda>im j. j\<lparr>ImagesV0.Images := go_append (ImagesV0.Images j) (ToJSONV0 im)\<rparr>)
       (range_of ims) \<lparr>ImagesV0.Images = None\<rparr>"

definition ImagesFromJSONV0 :: "ImagesV0 \<Rightarrow> Image slice" where
  "ImagesFromJSONV0 j =
     fold (\<lambda>im result. go_append result (ImageFromJSONV0 im))
       (range_of (ImagesV0.Images j)) (Some [])"

section \<open>Remote catalog\<close>

text \<open>
  Modelled from the spec: the wire structs \<^verbatim>\<open>RemoteVersionV1\<close>, \<^verbatim>\<open>RemoteImageV1\<close>
  and \<^verbatim>\<open>RemoteImagesV1\<close> are declared outside types.go; their fields are the ones
  the converters read.
\<close>

record RemoteVersionV1 =
  Format :: string
  Hash :: string
  Location :: string
  Version :: string

record RemoteImageV1 =
  Name :: string
  DefaultVersion :: string
  Versions :: "RemoteVersionV1 slice"

record RemoteImagesV1 =
  Images :: "RemoteImageV1 slice"

record RemoteVersion =
  format :: string
  version :: string
  hash :: string
  location :: string

record RemoteImage =
  defaultVersion :: string
  name :: string
  versions :: "RemoteVersion slice"

record RemoteContents =
  Images :: "string \<rightharpoonup> RemoteImage"

definition RemoteVersionFromJSONV1 :: "RemoteVersionV1 \<Rightarrow> RemoteVersion" where
  "RemoteVersionFromJSONV1 j =
     \<lparr>format = RemoteVersionV1.Format j, version = Version j, hash = Hash j,
      location = Location j\<rparr>"

text \<open>
  The part of the loop body of \<^verbatim>\<open>RemoteContentsFromJSONV1\<close> that builds
  \<^verbatim>\<open>tmpVersions\<close> and \<^verbatim>\<open>tmpImage\<close> for one catalog entry.
\<close>

definition tmpImage :: "RemoteImageV1 \<Rightarrow> RemoteImage" where
  "tmpImage im =
     \<lparr>defaultVersion = DefaultVersion im,
      name = RemoteImageV1.Name im,
      versions =
        fold (\<lambda>v tmpVersions. go_append tmpVersions (RemoteVersionFromJSONV1 v))
          (range_of (Versions im)) (Some [])\<rparr>"

definition RemoteContentsFromJSONV1 :: "RemoteImagesV1 \<Rightarrow> RemoteContents" where
  "RemoteContentsFromJSONV1 j =
     \<lparr>RemoteContents.Images =
        fold (\<lambda>im images.
                if RemoteImageV1.Name im = [] then images
                else images(RemoteImageV1.Name im \<mapsto> tmpImage im))
          (range_of (RemoteImagesV1.Images j)) Map.empty\<rparr>"

section \<open>Kind-value envelope\<close>

text \<open>
  \<^verbatim>\<open>kindValueJSON\<close> has a string field \<^verbatim>\<open>kind\<close> and a \<^verbatim>\<open>json.RawMessage\<close>
  field \<^verbatim>\<open>value\<close>, which is nil until a member stores its raw value in it. The struct
  has no decoding method of its own, so a document is decoded into it by the field
  rules of \<^verbatim>\<open>encoding/json\<close>, as for the Archive alias above.
\<close>

record kindValueJSON =
  Kind :: string
  Value :: "json option"

fun kindValue_members ::
  "(string \<times> json) list \<Rightarrow> kindValueJSON \<Rightarrow> error option \<Rightarrow> error + kindValueJSON" where
  "kindValue_members [] kv saved = (case saved of None \<Rightarrow> Inr kv | Some e \<Rightarrow> Inl e)"
| "kindValue_members ((key, v) # rest) kv saved =
     (if foldName key = ''kind'' then
        (case decode_string_field v (Kind kv) saved of
           (s, saved') \<Rightarrow> kindValue_members rest (kv\<lparr>Kind := s\<rparr>) saved')
      else if foldName key = ''value'' then
        kindValue_members rest (kv\<lparr>Value := Some v\<rparr>) saved
      else kindValue_members rest kv saved)"

fun unmarshal_kindValueJSON :: "json \<Rightarrow> error + kindValueJSON" where
  "unmarshal_kindValueJSON (JObject ms) = kindValue_members ms \<lparr>Kind = [], Value = None\<rparr> None"
| "unmarshal_kindValueJSON JNull = Inr \<lparr>Kind = [], Value = None\<rparr>"
| "unmarshal_kindValueJSON (JBool b) = Inl MalformedJSON"
| "unmarshal_kindValueJSON (JNumber n) = Inl MalformedJSON"
| "unmarshal_kindValueJSON (JString s) = Inl MalformedJSON"
| "unmarshal_kindValueJSON (JArray vs) = Inl MalformedJSON"

section \<open>Auxiliary facts\<close>

subsection \<open>Slices and loops\<close>

lemma fold_go_append:
  "fold (\<lambda>x acc. go_append acc (f x)) xs (Some ys) = Some (ys @ map f xs)"
  by (induction xs arbitrary: ys) (simp_all add: go_append_def range_of_def)

lemma ImagesToJSONV0_fold:
  "fold (\<lambda>im j. j\<lparr>ImagesV0.Images := go_append (ImagesV0.Images j) (ToJSONV0 im)\<rparr>) xs j0
     = \<lparr>ImagesV0.Images =
          (if xs = [] then ImagesV0.Images j0
           else Some (range_of (ImagesV0.Images j0) @ map ToJSONV0 xs))\<rparr>"
  by (induction xs arbitrary: j0) (auto simp add: go_append_def range_of_def)

lemma range_of_ImagesToJSONV0:
  "range_of (ImagesV0.Images (ImagesToJSONV0 ims)) = map ToJSONV0 (range_of ims)"
  by (simp add: ImagesToJSONV0_def ImagesToJSONV0_fold range_of_def)

lemma catalog_fold_dom:
  "dom (fold (\<lambda>im images. if RemoteImageV1.Name im = [] then images
                           else images(RemoteImageV1.Name im \<mapsto> tmpImage im)) xs m)
     = dom m \<union> {n \<in> RemoteImageV1.Name ` set xs. n \<noteq> []}"
  by (induction xs arbitrary: m) auto

lemma catalog_fold_lookup:
  "fold (\<lambda>im images. if RemoteImageV1.Name im = [] then images
                      else images(RemoteImageV1.Name im \<mapsto> tmpImage im)) xs m n
   = (case filter (\<lambda>im. RemoteImageV1.Name im = n) xs of
        [] \<Rightarrow> m n
      | y # ys \<Rightarrow> if n = [] then m n else Some (tmpImage (last (y # ys))))"
  by (induction xs arbitrary: m) (auto split: list.splits)

subsection \<open>Decoding the members of an Archive document\<close>

lemma decode_string_field_typed:
  "string_or_null v \<Longrightarrow> snd (decode_string_field v cur saved) = saved"
  by (cases v) (simp_all add: decode_string_field_def)

lemma typed_prefix:
  "\<forall>m\<in>set ms. \<not> selects_format m \<Longrightarrow> string_fields_typed ms \<Longrightarrow>
   \<exists>ar'. Archive.Format ar' = Archive.Format ar
     \<and> (\<forall>rest. archive_members (ms @ rest) ar None = archive_members rest ar' None)"
proof (induction ms arbitrary: ar)
  case Nil
  then show ?case by auto
next
  case (Cons m ms)
  obtain key v where m: "m = (key, v)" by (cases m)
  have nf: "foldName key \<noteq> ''format''"
    using Cons.prems(1) by (simp add: m selects_format_def)
  have rest: "\<forall>m\<in>set ms. \<not> selects_format m" "string_fields_typed ms"
    using Cons.prems by (simp_all add: string_fields_typed_def)
  have ih: "\<exists>ar'. Archive.Format ar' = Archive.Format ar0
     \<and> (\<forall>rest. archive_members (ms @ rest) ar0 None = archive_members rest ar' None)"
    for ar0
    using Cons.IH [OF rest] .
  have typed: "\<exists>s. decode_string_field v cur None = (s, None)"
    if "foldName key \<in> {''name'', ''reference'', ''remote'', ''filepath''}" for cur
  proof -
    have "string_or_null v"
      using Cons.prems(2) that by (auto simp add: m string_fields_typed_def)
    then have "snd (decode_string_field v cur None) = None"
      by (rule decode_string_field_typed)
    then show ?thesis by (cases "decode_string_field v cur None") simp
  qed
  consider (name) "foldName key = ''name''" | (reference) "foldName key = ''reference''"
    | (remote) "foldName key = ''remote''" | (filepath) "foldName key = ''filepath''"
    | (other) "foldName key \<notin> {''name'', ''reference'', ''remote'', ''filepath''}"
    by auto
  then show ?case
  proof cases
    case name
    then obtain s where "decode_string_field v (Image.Name ar) None = (s, None)"
      using typed by auto
    then show ?thesis using name ih [of "ar\<lparr>Image.Name := s\<rparr>"] by (simp add: m)
  next
    case reference
    then obtain s where "decode_string_field v (Image.Reference ar) None = (s, None)"
      using typed by auto
    then show ?thesis using reference ih [of "ar\<lparr>Image.Reference := s\<rparr>"] by (simp add: m)
  next
    case remote
    then obtain s where "decode_string_field v (Image.Remote ar) None = (s, None)"
      using typed by auto
    then show ?thesis using remote ih [of "ar\<lparr>Image.Remote := s\<rparr>"] by (simp add: m)
  next
    case filepath
    then obtain s where "decode_string_field v (Filepath ar) None = (s, None)"
      using typed by auto
    then show ?thesis using filepath ih [of "ar\<lparr>Filepath := s\<rparr>"] by (simp add: m)
  next
    case other
    then show ?thesis using nf ih [of ar] by (simp add: m)
  qed
qed

lemma absent_typed:
  assumes "\<forall>m\<in>set ms. \<not> selects_format m" and "string_fields_typed ms"
  shows "\<exists>ar'. archive_members ms ar None = Inr ar' \<and> Archive.Format ar' = Archive.Format ar"
proof -
  obtain ar' where "Archive.Format ar' = Archive.Format ar"
    and "archive_members (ms @ []) ar None = archive_members [] ar' None"
    using typed_prefix [OF assms, of ar] by blast
  then show ?thesis by simp
qed

lemma explicit_valid:
  assumes pre: "\<forall>m\<in>set pre. \<not> selects_format m" "string_fields_typed pre"
    and post: "\<forall>m\<in>set post. \<not> selects_format m" "string_fields_typed post"
    and key: "foldName key = ''format''"
    and v: "ArchiveFormat_UnmarshalJSON v = Inr arf"
  shows "\<exists>ar'. archive_members (pre @ (key, v) # post) ar None = Inr ar'
           \<and> Archive.Format ar' = arf"
proof -
  obtain ar1 where
    "archive_members (pre @ (key, v) # post) ar None = archive_members ((key, v) # post) ar1 None"
    using typed_prefix [OF pre, of ar] by blast
  then have "archive_members (pre @ (key, v) # post) ar None
      = archive_members post (ar1\<lparr>Archive.Format := arf\<rparr>) None"
    using key v by simp
  then show ?thesis
    using absent_typed [OF post, of "ar1\<lparr>Archive.Format := arf\<rparr>"] by simp
qed

lemma save_error_not_invalid:
  "saved \<noteq> Some (InvalidArchiveFormat x) \<Longrightarrow>
   snd (decode_string_field v cur saved) \<noteq> Some (InvalidArchiveFormat x)"
  by (cases v; cases saved) (simp_all add: decode_string_field_def save_error_def)

lemma absent_never_invalid:
  "\<forall>m\<in>set ms. \<not> selects_format m \<Longrightarrow> saved \<noteq> Some (InvalidArchiveFormat x) \<Longrightarrow>
   archive_members ms ar saved \<noteq> Inl (InvalidArchiveFormat x)"
proof (induction ms arbitrary: ar saved)
  case Nil
  then show ?case by (auto split: option.splits)
next
  case (Cons m ms)
  obtain key v where m: "m = (key, v)" by (cases m)
  have nf: "foldName key \<noteq> ''format''"
    using Cons.prems(1) by (simp add: m selects_format_def)
  have rest: "\<forall>m\<in>set ms. \<not> selects_format m"
    using Cons.prems by simp
  have ih: "saved0 \<noteq> Some (InvalidArchiveFormat x) \<Longrightarrow>
      archive_members ms ar0 saved0 \<noteq> Inl (InvalidArchiveFormat x)" for ar0 saved0
    using Cons.IH [OF rest] .
  note s = save_error_not_invalid [OF Cons.prems(2)]
  show ?case
    using nf ih [OF Cons.prems(2)] ih [OF s]
    by (simp add: m split: prod.splits) (metis snd_conv)
qed

lemma invariant_format:
  "Archive.Format ar \<in> {ArchiveFormatUnknown, ArchiveFormatTgz, ArchiveFormatSquashfs} \<Longrightarrow>
   archive_members ms ar saved = Inr ar' \<Longrightarrow>
   Archive.Format ar' \<in> {ArchiveFormatUnknown, ArchiveFormatTgz, ArchiveFormatSquashfs}"
proof (induction ms arbitrary: ar saved)
  case Nil
  then show ?case by (simp split: option.splits)
next
  case (Cons m ms)
  obtain key v where m: "m = (key, v)" by (cases m)
  have fmt: "ArchiveFormat_UnmarshalJSON v = Inr arf \<Longrightarrow> arf \<in> {ArchiveFormatUnknown, ArchiveFormatTgz, ArchiveFormatSquashfs}" for arf
    by (auto simp add: ArchiveFormat_UnmarshalJSON_def split: sum.splits if_splits)
  show ?case
    using Cons.prems fmt
    by (auto simp add: m split: if_splits prod.splits sum.splits dest!: Cons.IH [rotated])
qed

subsection \<open>Decoding the members of an envelope\<close>

lemma kind_absent:
  "\<forall>m\<in>set ms. foldName (fst m) \<noteq> ''kind'' \<Longrightarrow>
   \<exists>kv'. kindValue_members ms kv None = Inr kv' \<and> Kind kv' = Kind kv"
proof (induction ms arbitrary: kv)
  case Nil
  then show ?case by simp
next
  case (Cons m ms)
  obtain key v where m: "m = (key, v)" by (cases m)
  have ih: "\<exists>kv'. kindValue_members ms kv0 None = Inr kv' \<and> Kind kv' = Kind kv0" for kv0
    using Cons.IH Cons.prems by simp
  show ?case
    using Cons.prems ih [of kv] ih [of "kv\<lparr>Value := Some v\<rparr>"] by (simp add: m)
qed

section \<open>Properties of the converters and decoders\<close>

subsection \<open>Image schema converters\<close>

text \<open>
  Claim C1. The specification states that converting an Image to the V1 wire form and
  back is the identity, remote included. \<^verbatim>\<open>ToJSONV1\<close> writes the empty string into the
  wire record's remote field instead of the Image's remote, while \<^verbatim>\<open>ImageFromJSONV1\<close>
  copies all three fields. On the Image named \<open>etcd\<close> with reference \<open>3.2\<close> and remote
  \<open>origin\<close> the round trip therefore returns an Image with empty remote, which differs
  from the original.
\<close>

theorem ToJSONV1_roundtrip_loses_remote:
  "ImageFromJSONV1 (ToJSONV1
      \<lparr>Image.Name = ''etcd'', Image.Reference = ''3.2'', Image.Remote = ''origin''\<rparr>)
     = \<lparr>Image.Name = ''etcd'', Image.Reference = ''3.2'', Image.Remote = []\<rparr>
   \<and> ImageFromJSONV1 (ToJSONV1
      \<lparr>Image.Name = ''etcd'', Image.Reference = ''3.2'', Image.Remote = ''origin''\<rparr>)
     \<noteq> \<lparr>Image.Name = ''etcd'', Image.Reference = ''3.2'', Image.Remote = ''origin''\<rparr>"
  by (simp add: ImageFromJSONV1_def ToJSONV1_def)

text \<open>
  Claim C2. For every Image with a non-empty remote, converting to the V0 wire form and
  back yields the Image with the same name and reference and the empty remote; the
  result differs from the original.
\<close>

theorem V0_roundtrip_clears_remote:
  "Image.Remote img \<noteq> [] \<Longrightarrow>
   ImageFromJSONV0 (ToJSONV0 img)
     = \<lparr>Image.Name = Image.Name img, Image.Reference = Image.Reference img, Image.Remote = []\<rparr>
   \<and> ImageFromJSONV0 (ToJSONV0 img) \<noteq> img"
  by (cases img) (auto simp add: ImageFromJSONV0_def ToJSONV0_def)

theorem V0_roundtrip_clears_remote_witness:
  "Image.Remote \<lparr>Image.Name = ''etcd'', Image.Reference = ''3.2'', Image.Remote = ''origin''\<rparr> \<noteq> []
   \<and> ImageFromJSONV0 (ToJSONV0
        \<lparr>Image.Name = ''etcd'', Image.Reference = ''3.2'', Image.Remote = ''origin''\<rparr>)
       = \<lparr>Image.Name = ''etcd'', Image.Reference = ''3.2'', Image.Remote = []\<rparr>"
  using V0_roundtrip_clears_remote
    [of "\<lparr>Image.Name = ''etcd'', Image.Reference = ''3.2'', Image.Remote = ''origin''\<rparr>"]
  by simp

text \<open>
  Claim C7. For every slice of Images, nil included, \<^verbatim>\<open>ImagesFromJSONV0\<close> after
  \<^verbatim>\<open>ImagesToJSONV0\<close> returns a slice that is not nil and holds, in the same order and
  number, the input's Images with their remote cleared. For the empty and for the nil
  input the result is the empty slice.
\<close>

theorem ImagesV0_roundtrip:
  "ImagesFromJSONV0 (ImagesToJSONV0 ims)
     = Some (map (\<lambda>im. im\<lparr>Image.Remote := []\<rparr>) (range_of ims))
   \<and> length (range_of (ImagesFromJSONV0 (ImagesToJSONV0 ims))) = length (range_of ims)
   \<and> ImagesFromJSONV0 (ImagesToJSONV0 (Some [])) = Some []
   \<and> ImagesFromJSONV0 (ImagesToJSONV0 None) = Some []"
proof -
  have rt: "ImageFromJSONV0 \<circ> ToJSONV0 = (\<lambda>im. im\<lparr>Image.Remote := []\<rparr>)"
    by (rule ext) (simp add: ImageFromJSONV0_def ToJSONV0_def)
  have main: "ImagesFromJSONV0 (ImagesToJSONV0 xs)
      = Some (map (\<lambda>im. im\<lparr>Image.Remote := []\<rparr>) (range_of xs))" for xs
    by (simp add: ImagesFromJSONV0_def fold_go_append range_of_ImagesToJSONV0 rt)
  show ?thesis by (simp add: main range_of_def)
qed

subsection \<open>ArchiveFormat and Archive\<close>

text \<open>
  Claim C8. \<^verbatim>\<open>FileSuffix\<close> maps the format \<open>tgz\<close> to \<open>.torcx.tgz\<close> and the format
  \<open>squashfs\<close> to \<open>.torcx.squashfs\<close>.
\<close>

theorem FileSuffix_values:
  "FileSuffix ''tgz'' = ''.torcx.tgz''
   \<and> FileSuffix ''squashfs'' = ''.torcx.squashfs''
   \<and> FileSuffix ArchiveFormatTgz = ''.torcx.tgz''
   \<and> FileSuffix ArchiveFormatSquashfs = ''.torcx.squashfs''"
  by (simp add: FileSuffix_def ArchiveFormatTgz_def ArchiveFormatSquashfs_def)

text \<open>
  Claim C3. Decoding an ArchiveFormat from a JSON string succeeds exactly on \<open>tgz\<close> and
  \<open>squashfs\<close>, storing that value; every other string, the empty one included, fails
  with the InvalidArchiveFormat error, whose message contains both literals.
\<close>

theorem ArchiveFormat_UnmarshalJSON_strings:
  "ArchiveFormat_UnmarshalJSON (JString ''tgz'') = Inr ArchiveFormatTgz
   \<and> ArchiveFormat_UnmarshalJSON (JString ''squashfs'') = Inr ArchiveFormatSquashfs
   \<and> (s \<noteq> ''tgz'' \<longrightarrow> s \<noteq> ''squashfs'' \<longrightarrow>
        ArchiveFormat_UnmarshalJSON (JString s) = Inl (InvalidArchiveFormat invalid_format_message))
   \<and> ArchiveFormat_UnmarshalJSON (JString []) = Inl (InvalidArchiveFormat invalid_format_message)
   \<and> sublist ''tgz'' invalid_format_message
   \<and> sublist ''squashfs'' invalid_format_message"
proof -
  have m: "invalid_format_message =
      (''could not unmarshal into ArchiveFormat: must be one of '' @ [CHR 0x22]) @ ''tgz''
        @ ([CHR 0x22] @ '', '' @ [CHR 0x22]) @ ''squashfs'' @ [CHR 0x22]"
    by (simp add: invalid_format_message_def quoted_def ArchiveFormatTgz_def
        ArchiveFormatSquashfs_def)
  have t: "sublist ''tgz'' invalid_format_message"
    unfolding m by (rule sublist_appendI)
  have m': "invalid_format_message =
      (''could not unmarshal into ArchiveFormat: must be one of '' @ [CHR 0x22] @ ''tgz''
        @ [CHR 0x22] @ '', '' @ [CHR 0x22]) @ ''squashfs'' @ [CHR 0x22]"
    by (simp add: m)
  have s: "sublist ''squashfs'' invalid_format_message"
    unfolding m' by (rule sublist_appendI)
  show ?thesis
    using t s
    by (simp add: ArchiveFormat_UnmarshalJSON_def ArchiveFormatTgz_def ArchiveFormatSquashfs_def)
qed

theorem ArchiveFormat_UnmarshalJSON_strings_witness:
  "''zip'' \<noteq> ''tgz'' \<and> ''zip'' \<noteq> ''squashfs''
   \<and> ArchiveFormat_UnmarshalJSON (JString ''zip'') = Inl (InvalidArchiveFormat invalid_format_message)"
  using ArchiveFormat_UnmarshalJSON_strings [of "''zip''"] by simp

text \<open>
  Claim C4. Let a document be a JSON object whose members for the four string fields
  hold strings or \<^verbatim>\<open>null\<close>. If no member selects the format field, decoding an Archive
  succeeds with format \<open>tgz\<close>, and without that condition on the string fields it at
  least never reports InvalidArchiveFormat. If the first member that selects the format
  field holds the empty string, and the members before it that select a string field
  hold strings or \<^verbatim>\<open>null\<close>, decoding fails with InvalidArchiveFormat. If exactly one
  member selects the format field and holds \<open>tgz\<close> or \<open>squashfs\<close>, decoding succeeds
  with that format.
\<close>

theorem Archive_UnmarshalJSON_format:
  "((\<forall>m\<in>set ms. \<not> selects_format m) \<longrightarrow> string_fields_typed ms \<longrightarrow>
      (\<exists>ar. Archive_UnmarshalJSON (JObject ms) = Inr ar \<and> Archive.Format ar = ''tgz''))
   \<and> ((\<forall>m\<in>set ms. \<not> selects_format m) \<longrightarrow>
        Archive_UnmarshalJSON (JObject ms) \<noteq> Inl (InvalidArchiveFormat x))
   \<and> ((\<forall>m\<in>set pre. \<not> selects_format m) \<longrightarrow> string_fields_typed pre \<longrightarrow>
        foldName key = ''format'' \<longrightarrow>
        Archive_UnmarshalJSON (JObject (pre @ (key, JString []) # post))
          = Inl (InvalidArchiveFormat invalid_format_message))
   \<and> ((\<forall>m\<in>set (pre @ post). \<not> selects_format m) \<longrightarrow> string_fields_typed (pre @ post) \<longrightarrow>
        foldName key = ''format'' \<longrightarrow> arf \<in> {''tgz'', ''squashfs''} \<longrightarrow>
        (\<exists>ar. Archive_UnmarshalJSON (JObject (pre @ (key, JString arf) # post)) = Inr ar
           \<and> Archive.Format ar = arf))"
proof (intro conjI impI)
  assume "\<forall>m\<in>set ms. \<not> selects_format m" and "string_fields_typed ms"
  then obtain ar' where "archive_members ms zero_Archive None = Inr ar'"
    and "Archive.Format ar' = ArchiveFormatUnknown"
    using absent_typed [of ms zero_Archive] by (auto simp add: zero_Archive_def)
  then show "\<exists>ar. Archive_UnmarshalJSON (JObject ms) = Inr ar \<and> Archive.Format ar = ''tgz''"
    by (simp add: Archive_UnmarshalJSON_def ArchiveFormatTgz_def)
next
  assume "\<forall>m\<in>set ms. \<not> selects_format m"
  then have "archive_members ms zero_Archive None \<noteq> Inl (InvalidArchiveFormat x)"
    by (rule absent_never_invalid) simp
  then show "Archive_UnmarshalJSON (JObject ms) \<noteq> Inl (InvalidArchiveFormat x)"
    by (auto simp add: Archive_UnmarshalJSON_def split: sum.splits)
next
  assume pre: "\<forall>m\<in>set pre. \<not> selects_format m" "string_fields_typed pre"
    and key: "foldName key = ''format''"
  have v: "ArchiveFormat_UnmarshalJSON (JString [])
      = Inl (InvalidArchiveFormat invalid_format_message)"
    by (simp add: ArchiveFormat_UnmarshalJSON_def ArchiveFormatTgz_def ArchiveFormatSquashfs_def)
  obtain ar1 where "archive_members (pre @ (key, JString []) # post) zero_Archive None
      = archive_members ((key, JString []) # post) ar1 None"
    using typed_prefix [OF pre, of zero_Archive] by blast
  then have "archive_members (pre @ (key, JString []) # post) zero_Archive None
      = Inl (InvalidArchiveFormat invalid_format_message)"
    using key v by simp
  then show "Archive_UnmarshalJSON (JObject (pre @ (key, JString []) # post))
      = Inl (InvalidArchiveFormat invalid_format_message)"
    by (simp add: Archive_UnmarshalJSON_def)
next
  assume nf: "\<forall>m\<in>set (pre @ post). \<not> selects_format m"
    and ty: "string_fields_typed (pre @ post)"
    and key: "foldName key = ''format''" and arf: "arf \<in> {''tgz'', ''squashfs''}"
  have v: "ArchiveFormat_UnmarshalJSON (JString arf) = Inr arf"
    using arf
    by (auto simp add: ArchiveFormat_UnmarshalJSON_def ArchiveFormatTgz_def
        ArchiveFormatSquashfs_def)
  have "\<exists>ar'. archive_members (pre @ (key, JString arf) # post) zero_Archive None = Inr ar'
           \<and> Archive.Format ar' = arf"
    using nf ty
    by (intro explicit_valid [OF _ _ _ _ key v]) (simp_all add: string_fields_typed_def)
  then obtain ar' where
    "archive_members (pre @ (key, JString arf) # post) zero_Archive None = Inr ar'"
    and "Archive.Format ar' = arf" by blast
  then show "\<exists>ar. Archive_UnmarshalJSON (JObject (pre @ (key, JString arf) # post)) = Inr ar
           \<and> Archive.Format ar = arf"
    using arf by (auto simp add: Archive_UnmarshalJSON_def ArchiveFormatUnknown_def)
qed

theorem Archive_UnmarshalJSON_format_witness:
  "list_all (\<lambda>m. \<not> selects_format m)
      [(''name'', JString ''etcd''), (''filepath'', JString ''/store/etcd'')]
   \<and> string_fields_typed [(''name'', JString ''etcd''), (''filepath'', JString ''/store/etcd'')]
   \<and> (\<exists>ar. Archive_UnmarshalJSON
              (JObject [(''name'', JString ''etcd''), (''filepath'', JString ''/store/etcd'')])
            = Inr ar \<and> Archive.Format ar = ''tgz'')
   \<and> list_all (\<lambda>m. \<not> selects_format m) [(''Name'', JString ''etcd'')]
   \<and> string_fields_typed [(''Name'', JString ''etcd'')]
   \<and> foldName ''format'' = ''format''
   \<and> Archive_UnmarshalJSON
        (JObject ([(''Name'', JString ''etcd'')] @ (''format'', JString []) # [(''filepath'', JNull)]))
       = Inl (InvalidArchiveFormat invalid_format_message)
   \<and> list_all (\<lambda>m. \<not> selects_format m) ([(''Name'', JString ''etcd'')] @ [(''filepath'', JNull)])
   \<and> string_fields_typed ([(''Name'', JString ''etcd'')] @ [(''filepath'', JNull)])
   \<and> ''squashfs'' \<in> {''tgz'', ''squashfs''}
   \<and> (\<exists>ar. Archive_UnmarshalJSON
              (JObject ([(''Name'', JString ''etcd'')] @ (''format'', JString ''squashfs'')
                 # [(''filepath'', JNull)]))
            = Inr ar \<and> Archive.Format ar = ''squashfs'')"
proof -
  have h1: "list_all (\<lambda>m. \<not> selects_format m)
      [(''name'', JString ''etcd''), (''filepath'', JString ''/store/etcd'')]"
    by (simp add: selects_format_def lower_ascii_def)
  have h2: "string_fields_typed
      [(''name'', JString ''etcd''), (''filepath'', JString ''/store/etcd'')]"
    by (simp add: string_fields_typed_def)
  have h3: "list_all (\<lambda>m. \<not> selects_format m) [(''Name'', JString ''etcd'')]"
    by (simp add: selects_format_def lower_ascii_def)
  have h3': "string_fields_typed [(''Name'', JString ''etcd'')]"
    by (simp add: string_fields_typed_def)
  have h4: "foldName ''format'' = ''format''"
    by (simp add: lower_ascii_def)
  have h5: "list_all (\<lambda>m. \<not> selects_format m)
      ([(''Name'', JString ''etcd'')] @ [(''filepath'', JNull)])"
    by (simp add: selects_format_def lower_ascii_def)
  have h6: "string_fields_typed ([(''Name'', JString ''etcd'')] @ [(''filepath'', JNull)])"
    by (simp add: string_fields_typed_def)
  have h7: "''squashfs'' \<in> {''tgz'', ''squashfs''}"
    by simp
  show ?thesis
    using h1 h2 h3 h3' h4 h5 h6 h7
      Archive_UnmarshalJSON_format
        [where ms = "[(''name'', JString ''etcd''), (''filepath'', JString ''/store/etcd'')]"
           and pre = "[(''Name'', JString ''etcd'')]" and key = "''format''"
           and post = "[(''filepath'', JNull)]" and arf = "''squashfs''"
           and x = invalid_format_message]
    unfolding list_all_iff by blast
qed

text \<open>
  Claim C10. Whenever decoding an Archive succeeds, on any JSON document, the format of
  the resulting Archive is not the unknown value: it is \<open>tgz\<close> or \<open>squashfs\<close>.
\<close>

theorem Archive_UnmarshalJSON_format_known:
  "Archive_UnmarshalJSON b = Inr ar \<Longrightarrow>
   Archive.Format ar \<noteq> ArchiveFormatUnknown
   \<and> (Archive.Format ar = ''tgz'' \<or> Archive.Format ar = ''squashfs'')"
proof -
  assume r: "Archive_UnmarshalJSON b = Inr ar"
  then obtain arAlias where a: "unmarshal_archiveAlias b = Inr arAlias"
    and ar: "ar = (if Archive.Format arAlias = ArchiveFormatUnknown
               then arAlias\<lparr>Archive.Format := ArchiveFormatTgz\<rparr> else arAlias)"
    by (auto simp add: Archive_UnmarshalJSON_def split: sum.splits)
  have "Archive.Format arAlias \<in> {ArchiveFormatUnknown, ArchiveFormatTgz, ArchiveFormatSquashfs}"
  proof (cases b)
    case (JObject ms)
    then have "archive_members ms zero_Archive None = Inr arAlias"
      using a by simp
    moreover have "Archive.Format zero_Archive
        \<in> {ArchiveFormatUnknown, ArchiveFormatTgz, ArchiveFormatSquashfs}"
      by (simp add: zero_Archive_def)
    ultimately show ?thesis by (rule invariant_format [rotated])
  next
    case JNull
    then show ?thesis using a by (auto simp add: zero_Archive_def)
  qed (use a in simp_all)
  then show ?thesis
    by (auto simp add: ar ArchiveFormatUnknown_def ArchiveFormatTgz_def ArchiveFormatSquashfs_def)
qed

theorem Archive_UnmarshalJSON_format_known_witness:
  "Archive_UnmarshalJSON (JObject [(''name'', JString ''etcd''), (''FORMAT'', JString ''squashfs'')])
     = Inr \<lparr>Image.Name = ''etcd'', Image.Reference = [], Image.Remote = [], Filepath = [],
            Archive.Format = ''squashfs''\<rparr>
   \<and> Archive.Format \<lparr>Image.Name = ''etcd'', Image.Reference = [], Image.Remote = [],
        Filepath = [], Archive.Format = ''squashfs''\<rparr> \<noteq> ArchiveFormatUnknown"
proof -
  have h: "Archive_UnmarshalJSON
      (JObject [(''name'', JString ''etcd''), (''FORMAT'', JString ''squashfs'')])
     = Inr \<lparr>Image.Name = ''etcd'', Image.Reference = [], Image.Remote = [], Filepath = [],
            Archive.Format = ''squashfs''\<rparr>"
    by (simp add: Archive_UnmarshalJSON_def ArchiveFormat_UnmarshalJSON_def zero_Archive_def
        decode_string_field_def lower_ascii_def ArchiveFormatUnknown_def ArchiveFormatTgz_def
        ArchiveFormatSquashfs_def)
  show ?thesis
    using h Archive_UnmarshalJSON_format_known [OF h] by simp
qed

subsection \<open>Remote catalog\<close>

text \<open>
  Claim C5. \<^verbatim>\<open>RemoteContentsFromJSONV1\<close> returns a catalog whose keys are the non-empty
  names of the input entries, so entries with the empty name are skipped and nothing
  fails. Given two entries, one named with the empty string and one named \<open>etcd\<close>, in
  either order, the catalog has the single key \<open>etcd\<close>, bound to the translation of
  that entry.
\<close>

theorem RemoteContentsFromJSONV1_skips_empty_names:
  "dom (RemoteContents.Images (RemoteContentsFromJSONV1 j))
     = {n \<in> RemoteImageV1.Name ` set (range_of (RemoteImagesV1.Images j)). n \<noteq> []}
   \<and> dom (RemoteContents.Images (RemoteContentsFromJSONV1
        \<lparr>RemoteImagesV1.Images =
           Some [a\<lparr>RemoteImageV1.Name := []\<rparr>, b\<lparr>RemoteImageV1.Name := ''etcd''\<rparr>]\<rparr>))
       = {''etcd''}
   \<and> dom (RemoteContents.Images (RemoteContentsFromJSONV1
        \<lparr>RemoteImagesV1.Images =
           Some [b\<lparr>RemoteImageV1.Name := ''etcd''\<rparr>, a\<lparr>RemoteImageV1.Name := []\<rparr>]\<rparr>))
       = {''etcd''}
   \<and> RemoteContents.Images (RemoteContentsFromJSONV1
        \<lparr>RemoteImagesV1.Images =
           Some [a\<lparr>RemoteImageV1.Name := []\<rparr>, b\<lparr>RemoteImageV1.Name := ''etcd''\<rparr>]\<rparr>) ''etcd''
       = Some (tmpImage (b\<lparr>RemoteImageV1.Name := ''etcd''\<rparr>))"
  by (simp add: RemoteContentsFromJSONV1_def catalog_fold_dom range_of_def)

text \<open>
  Claim C6. For every input catalog and every non-empty name that at least one entry
  carries, the resulting map binds that name to the translation of the last entry with
  that name in input order.
\<close>

theorem RemoteContentsFromJSONV1_last_wins:
  "n \<noteq> [] \<Longrightarrow>
   filter (\<lambda>im. RemoteImageV1.Name im = n) (range_of (RemoteImagesV1.Images j)) \<noteq> [] \<Longrightarrow>
   RemoteContents.Images (RemoteContentsFromJSONV1 j) n
     = Some (tmpImage (last (filter (\<lambda>im. RemoteImageV1.Name im = n)
                               (range_of (RemoteImagesV1.Images j)))))"
  by (simp add: RemoteContentsFromJSONV1_def catalog_fold_lookup split: list.splits)

theorem RemoteContentsFromJSONV1_last_wins_witness:
  "''etcd'' \<noteq> []
   \<and> RemoteContents.Images (RemoteContentsFromJSONV1
        \<lparr>RemoteImagesV1.Images = Some
           [\<lparr>RemoteImageV1.Name = ''etcd'', DefaultVersion = ''1'', Versions = None\<rparr>,
            \<lparr>RemoteImageV1.Name = ''docker'', DefaultVersion = ''7'', Versions = None\<rparr>,
            \<lparr>RemoteImageV1.Name = ''etcd'', DefaultVersion = ''2'', Versions = None\<rparr>]\<rparr>) ''etcd''
       = Some \<lparr>defaultVersion = ''2'', name = ''etcd'', versions = Some []\<rparr>"
  using RemoteContentsFromJSONV1_last_wins
    [of "''etcd''" "\<lparr>RemoteImagesV1.Images = Some
           [\<lparr>RemoteImageV1.Name = ''etcd'', DefaultVersion = ''1'', Versions = None\<rparr>,
            \<lparr>RemoteImageV1.Name = ''docker'', DefaultVersion = ''7'', Versions = None\<rparr>,
            \<lparr>RemoteImageV1.Name = ''etcd'', DefaultVersion = ''2'', Versions = None\<rparr>]\<rparr>"]
  by (simp add: range_of_def tmpImage_def)

subsection \<open>Kind-value envelope\<close>

text \<open>
  Claim C9. The specification states that decoding an envelope whose \<^verbatim>\<open>kind\<close> member is
  missing fails with MalformedJSON. The struct is decoded by the field rules alone, which
  leave a field without a member at its zero value: the document whose only member is
  \<^verbatim>\<open>value\<close> decodes without error.
\<close>

theorem kindValueJSON_missing_kind_counterexample:
  "unmarshal_kindValueJSON (JObject [(''value'', JObject [])])
     = Inr \<lparr>Kind = [], Value = Some (JObject [])\<rparr>
   \<and> unmarshal_kindValueJSON (JObject [(''value'', JObject [])]) \<noteq> Inl MalformedJSON"
  by (simp add: lower_ascii_def)

text \<open>
  Claim C9, as amended. Decoding an envelope from a JSON object in which no member
  selects the \<^verbatim>\<open>kind\<close> field succeeds, and the decoded kind is the empty string.
\<close>

theorem kindValueJSON_missing_kind:
  "\<forall>m\<in>set ms. foldName (fst m) \<noteq> ''kind'' \<Longrightarrow>
   \<exists>kv. unmarshal_kindValueJSON (JObject ms) = Inr kv \<and> Kind kv = []"
  using kind_absent [of ms "\<lparr>Kind = [], Value = None\<rparr>"] by simp

theorem kindValueJSON_missing_kind_witness:
  "list_all (\<lambda>m. foldName (fst m) \<noteq> ''kind'') [(''value'', JObject [])]
   \<and> (\<exists>kv. unmarshal_kindValueJSON (JObject [(''value'', JObject [])]) = Inr kv \<and> Kind kv = [])"
proof -
  have h: "\<forall>m\<in>set [(''value'', JObject [])]. foldName (fst m) \<noteq> ''kind''"
    by (simp add: lower_ascii_def)
  show ?thesis
    using h kindValueJSON_missing_kind [OF h] unfolding list_all_iff by blast
qed

end
